theory Spec2Isabelle
  imports Complex_Main "HOL-Library.List_Lexorder" "HOL-Library.Char_ord"
begin

section \<open>The dashboard client: frontend/src/App.js\<close>

subsection \<open>Values exchanged with the API\<close>

text \<open>
  Dates are ISO 8601 strings (\<open>YYYY-MM-DD\<close>); the client only ever compares them with
  \<open>===\<close>. Prices and statistics are JavaScript numbers, read here as reals: the client
  does no arithmetic on them, it only formats them (\<open>toFixed(2)\<close>), and the formatting is
  not part of the model.

  An event object has the fields of the spec's Event (\<open>date\<close>, \<open>name\<close>, \<open>category\<close>,
  \<open>description\<close>, \<open>impact_level\<close>). The client also reads a property \<open>event\<close> of every
  event object; reading a property the object does not have gives \<open>undefined\<close> in
  JavaScript, which is \<open>None\<close> here.
\<close>

record Event =
  date :: string
  event :: "string option"
  name :: string
  category :: string
  description :: string
  impact_level :: string

record ImpactResult =
  event_date :: string
  window_days :: nat
  price_before :: real
  price_after :: real
  absolute_change :: real
  percentage_change :: real

text \<open>The body of a response of \<open>GET event-impact\<close>; \<open>impact\<close> is \<open>null\<close> (\<open>None\<close>) or an
  ImpactResult.\<close>

record ImpactResponse =
  impact :: "ImpactResult option"
  prices :: "real list"
  dates :: "string list"
  event_date :: string

record PricesResponse =
  dates :: "string list"
  prices :: "real list"

record EventsResponse =
  events :: "Event list"

record Statistics =
  mean :: real
  median :: real
  std_dev :: real
  volatility :: real
  min_price :: real
  max_price :: real
  count :: nat

record DateRangeResponse =
  start_date :: string
  end_date :: string

record CategoriesResponse =
  categories :: "string list"
  impact_levels :: "string list"

text \<open>An axios call either resolves with the response body or rejects; every handler of
  the client catches the rejection and logs it.\<close>

datatype axios_error = RequestFailed

subsection \<open>Component state\<close>

record PricePoint =
  date :: string
  price :: "real option"

record Filters =
  startDate :: string
  endDate :: string
  category :: string
  impactLevel :: string

record DateRange =
  range_start :: string
  range_end :: string

record AppState =
  prices :: "PricePoint list"
  events :: "Event list"
  statistics :: "Statistics option"
  selectedEvent :: "Event option"
  eventImpact :: "ImpactResponse option"
  filters :: Filters
  dateRange :: DateRange
  categories :: CategoriesResponse
  loading :: bool

definition initial_state :: AppState where
  "initial_state =
     \<lparr>AppState.prices = [], AppState.events = [], statistics = None,
      selectedEvent = None, eventImpact = None,
      filters = \<lparr>startDate = [], endDate = [], Filters.category = [], impactLevel = []\<rparr>,
      dateRange = \<lparr>range_start = [], range_end = []\<rparr>,
      AppState.categories = \<lparr>CategoriesResponse.categories = [], impact_levels = []\<rparr>,
      loading = True\<rparr>"

subsection \<open>JavaScript operators the handlers use\<close>

text \<open>\<open>a || b\<close> on strings: the empty string is the only falsy string.\<close>

definition js_or :: "string \<Rightarrow> string \<Rightarrow> string" where
  "js_or a b = (if a = [] then b else a)"

text \<open>A value of a request's \<open>params\<close> object. axios leaves a parameter whose value is
  \<open>undefined\<close> (or \<open>null\<close>) out of the query string and sends every other value, the
  empty string included.\<close>

datatype param = Undefined | Str string | Num int

text \<open>\<open>s || undefined\<close>.\<close>

definition or_undefined :: "string \<Rightarrow> param" where
  "or_undefined s = (if s = [] then Undefined else Str s)"

definition axios_query :: "(string \<times> param) list \<Rightarrow> (string \<times> param) list" where
  "axios_query params = filter (\<lambda>kv. snd kv \<noteq> Undefined) params"

text \<open>\<open>xs[i]\<close>: \<open>undefined\<close> beyond the end of the array.\<close>

definition js_index :: "'a list \<Rightarrow> nat \<Rightarrow> 'a option" where
  "js_index xs i = (if i < length xs then Some (xs ! i) else None)"

text \<open>\<open>xs.join(sep)\<close>: an \<open>undefined\<close> element is joined as the empty string.\<close>

fun js_join :: "string \<Rightarrow> string option list \<Rightarrow> string" where
  "js_join sep [] = []"
| "js_join sep [x] = (case x of None \<Rightarrow> [] | Some s \<Rightarrow> s)"
| "js_join sep (x # y # ys) = (case x of None \<Rightarrow> [] | Some s \<Rightarrow> s) @ sep @ js_join sep (y # ys)"

subsection \<open>fetchDateRange\<close>

text \<open>The updater given to \<open>setFilters\<close> when the date-range response arrives.\<close>

definition fill_date_bounds :: "DateRangeResponse \<Rightarrow> Filters \<Rightarrow> Filters" where
  "fill_date_bounds data prev =
     prev\<lparr>startDate := js_or (startDate prev) (start_date data),
          endDate := js_or (endDate prev) (end_date data)\<rparr>"

definition fetchDateRange :: "axios_error + DateRangeResponse \<Rightarrow> AppState \<Rightarrow> AppState" where
  "fetchDateRange response st =
     (case response of
        Inl err \<Rightarrow> st
      | Inr data \<Rightarrow>
          st\<lparr>dateRange := \<lparr>range_start = start_date data, range_end = end_date data\<rparr>,
             filters := fill_date_bounds data (filters st)\<rparr>)"

definition fetchCategories :: "axios_error + CategoriesResponse \<Rightarrow> AppState \<Rightarrow> AppState" where
  "fetchCategories response st =
     (case response of Inl err \<Rightarrow> st | Inr data \<Rightarrow> st\<lparr>AppState.categories := data\<rparr>)"

subsection \<open>fetchData\<close>

text \<open>The \<open>params\<close> objects of the three requests, in the order the source writes them.\<close>

definition prices_params :: "Filters \<Rightarrow> (string \<times> param) list" where
  "prices_params f =
     [(''start_date'', Str (startDate f)), (''end_date'', Str (endDate f))]"

definition events_params :: "Filters \<Rightarrow> (string \<times> param) list" where
  "events_params f =
     [(''category'', or_undefined (Filters.category f)),
      (''impact_level'', or_undefined (impactLevel f)),
      (''start_date'', Str (startDate f)),
      (''end_date'', Str (endDate f))]"

definition statistics_params :: "Filters \<Rightarrow> (string \<times> param) list" where
  "statistics_params f =
     [(''start_date'', Str (startDate f)), (''end_date'', Str (endDate f))]"

text \<open>\<open>pricesRes.data.dates.map((date, idx) => ({date, price: pricesRes.data.prices[idx]}))\<close>\<close>

definition priceData :: "PricesResponse \<Rightarrow> PricePoint list" where
  "priceData res =
     map (\<lambda>(idx, d). \<lparr>PricePoint.date = d, price = js_index (PricesResponse.prices res) idx\<rparr>)
       (enumerate 0 (PricesResponse.dates res))"

text \<open>\<open>fetchData\<close> is asynchronous: \<open>setLoading(true)\<close> runs when it is called, the rest
  when the three requests have settled.\<close>

definition fetchData_start :: "AppState \<Rightarrow> AppState" where
  "fetchData_start st = st\<lparr>loading := True\<rparr>"

text \<open>\<open>Promise.all\<close> rejects when any of the three requests does; \<open>finally\<close> clears
  \<open>loading\<close> on both paths.\<close>

definition fetchData ::
  "axios_error + (PricesResponse \<times> EventsResponse \<times> Statistics) \<Rightarrow> AppState \<Rightarrow> AppState" where
  "fetchData response st =
     (case response of
        Inl err \<Rightarrow> st\<lparr>loading := False\<rparr>
      | Inr (pricesRes, eventsRes, statsRes) \<Rightarrow>
          st\<lparr>AppState.prices := priceData pricesRes,
             AppState.events := EventsResponse.events eventsRes,
             statistics := Some statsRes,
             loading := False\<rparr>)"

subsection \<open>handleEventClick and handleFilterChange\<close>

definition event_impact_params :: "Event \<Rightarrow> (string \<times> param) list" where
  "event_impact_params ev = [(''event_date'', Str (Event.date ev)), (''window_days'', Num 30)]"

text \<open>\<open>handleEventClick\<close> is asynchronous, and its two writes are two steps. Up to the
  \<open>await\<close> it runs at the click: \<open>setSelectedEvent(event)\<close>, and the request is made with
  \<open>event_impact_params\<close>. The rest runs when that request settles, on the state of that
  moment: \<open>setEventImpact(response.data)\<close> when it resolved, a log entry when it was
  rejected. Any handler, another click included, may run in between.\<close>

definition handleEventClick_start :: "Event \<Rightarrow> AppState \<Rightarrow> AppState" where
  "handleEventClick_start ev st = st\<lparr>selectedEvent := Some ev\<rparr>"

definition handleEventClick_settle :: "axios_error + ImpactResponse \<Rightarrow> AppState \<Rightarrow> AppState" where
  "handleEventClick_settle response st =
     (case response of Inl err \<Rightarrow> st | Inr data \<Rightarrow> st\<lparr>eventImpact := Some data\<rparr>)"

datatype filter_key = StartDateKey | EndDateKey | CategoryKey | ImpactLevelKey

fun handleFilterChange :: "filter_key \<Rightarrow> string \<Rightarrow> Filters \<Rightarrow> Filters" where
  "handleFilterChange StartDateKey v prev = prev\<lparr>startDate := v\<rparr>"
| "handleFilterChange EndDateKey v prev = prev\<lparr>endDate := v\<rparr>"
| "handleFilterChange CategoryKey v prev = prev\<lparr>Filters.category := v\<rparr>"
| "handleFilterChange ImpactLevelKey v prev = prev\<lparr>impactLevel := v\<rparr>"

subsection \<open>Interleaving of the handlers\<close>

text \<open>Every piece of a handler that runs without interruption is one action on the
  component state: a click, a change of a filter input, the start of \<open>fetchData\<close>, and the
  settling of each kind of request. A run of the component is a list of actions, in the
  order in which they happen.\<close>

datatype action =
    DateRangeSettled "axios_error + DateRangeResponse"
  | CategoriesSettled "axios_error + CategoriesResponse"
  | FetchDataStarted
  | FetchDataSettled "axios_error + (PricesResponse \<times> EventsResponse \<times> Statistics)"
  | EventClicked Event
  | EventImpactSettled "axios_error + ImpactResponse"
  | FilterChanged filter_key string

fun step :: "AppState \<Rightarrow> action \<Rightarrow> AppState" where
  "step st (DateRangeSettled response) = fetchDateRange response st"
| "step st (CategoriesSettled response) = fetchCategories response st"
| "step st FetchDataStarted = fetchData_start st"
| "step st (FetchDataSettled response) = fetchData response st"
| "step st (EventClicked ev) = handleEventClick_start ev st"
| "step st (EventImpactSettled response) = handleEventClick_settle response st"
| "step st (FilterChanged k v) = st\<lparr>filters := handleFilterChange k v (filters st)\<rparr>"

definition run :: "AppState \<Rightarrow> action list \<Rightarrow> AppState" where
  "run st acts = foldl step st acts"

subsection \<open>What is rendered\<close>

record ChartPoint =
  point_date :: string
  point_price :: "real option"
  point_events :: "string option"

text \<open>\<open>chartData\<close>: every price point with the joined \<open>event\<close> properties of the events of
  its date, or \<open>null\<close> when there is none.\<close>

definition chartData :: "PricePoint list \<Rightarrow> Event list \<Rightarrow> ChartPoint list" where
  "chartData ps evs =
     map (\<lambda>pricePoint.
            let pointEvents = filter (\<lambda>e. Event.date e = PricePoint.date pricePoint) evs
            in \<lparr>point_date = PricePoint.date pricePoint,
                point_price = price pricePoint,
                point_events =
                  (if length pointEvents > 0
                   then Some (js_join '', '' (map event pointEvents)) else None)\<rparr>)
         ps"

record ReferenceLine =
  line_x :: string
  line_label :: "string option"

text \<open>The markers of the main chart, one per event.\<close>

definition event_markers :: "Event list \<Rightarrow> ReferenceLine list" where
  "event_markers evs = map (\<lambda>ev. \<lparr>line_x = Event.date ev, line_label = event ev\<rparr>) evs"

record EventCard =
  selected :: bool
  card_date :: string
  card_category :: string
  card_impact :: string
  card_title :: "string option"
  card_description :: string

text \<open>\<open>selectedEvent?.date === event.date\<close>: with no selected event the left side is
  \<open>undefined\<close>, which no date string equals.\<close>

definition is_selected :: "Event option \<Rightarrow> Event \<Rightarrow> bool" where
  "is_selected sel ev = (case sel of None \<Rightarrow> False | Some s \<Rightarrow> Event.date s = Event.date ev)"

definition event_card :: "Event option \<Rightarrow> Event \<Rightarrow> EventCard" where
  "event_card sel ev =
     \<lparr>selected = is_selected sel ev,
      card_date = Event.date ev,
      card_category = Event.category ev,
      card_impact = impact_level ev,
      card_title = event ev,
      card_description = description ev\<rparr>"

definition events_list :: "AppState \<Rightarrow> EventCard list" where
  "events_list st = map (event_card (selectedEvent st)) (AppState.events st)"

text \<open>The impact section. It is rendered only when both \<open>selectedEvent\<close> and \<open>eventImpact\<close>
  are set; its body is the four figures and the window chart when \<open>impact\<close> is not \<open>null\<close>,
  and the sentence "Insufficient data to calculate impact for this event." otherwise.\<close>

record ImpactFigures =
  shown_price_before :: real
  shown_price_after :: real
  shown_absolute_change :: real
  shown_percentage_change :: real
  window_chart :: "(string option \<times> real) list"
  event_line :: ReferenceLine

datatype ImpactBody = Figures ImpactFigures | InsufficientData

record ImpactSection =
  heading :: "string option"
  body :: ImpactBody

definition impact_body :: "ImpactResponse \<Rightarrow> ImpactBody" where
  "impact_body r =
     (case impact r of
        Some res \<Rightarrow>
          Figures
            \<lparr>shown_price_before = price_before res,
             shown_price_after = price_after res,
             shown_absolute_change = absolute_change res,
             shown_percentage_change = percentage_change res,
             window_chart =
               map (\<lambda>(i, p). (js_index (ImpactResponse.dates r) i, p))
                 (enumerate 0 (ImpactResponse.prices r)),
             event_line =
               \<lparr>line_x = ImpactResponse.event_date r, line_label = Some ''Event Date''\<rparr>\<rparr>
      | None \<Rightarrow> InsufficientData)"

definition impact_section :: "AppState \<Rightarrow> ImpactSection option" where
  "impact_section st =
     (case selectedEvent st of
        None \<Rightarrow> None
      | Some sel \<Rightarrow>
          (case eventImpact st of
             None \<Rightarrow> None
           | Some r \<Rightarrow> Some \<lparr>heading = event sel, body = impact_body r\<rparr>))"

section \<open>The analytical core behind the API\<close>

text \<open>
  The backend that answers the client's requests is not among the sources. The definitions
  of this section are written from the specification's component design (its sections 3,
  4.1, 4.3 and 4.4), over the reals.
\<close>

text \<open>Modelled from the spec: the error kinds of its section 7 that the statistics and impact
  computations raise; the code that raises them is missing from the sources.\<close>

datatype stats_error = EmptyRangeError | InsufficientDataError | DateOutOfRangeError

text \<open>Modelled from the spec: the loaded price series of SeriesStore (section 3), missing from
  the sources: a list of points, each a date and a price.\<close>

type_synonym series = "(string \<times> real) list"

text \<open>Modelled from the spec: the invariant of the series (section 3), which no source
  states: one point per trading day, dates strictly increasing.\<close>

definition valid_series :: "series \<Rightarrow> bool" where
  "valid_series s = sorted_wrt (<) (map fst s)"

subsection \<open>QueryService\<close>

text \<open>Modelled from the spec: the inclusive date-range filter of QueryService (section 4.4),
  which is missing from the sources. An empty bound is no constraint. ISO dates of one
  format are ordered as their strings are.\<close>

definition in_range :: "string \<Rightarrow> string \<Rightarrow> string \<Rightarrow> bool" where
  "in_range start_d end_d d = ((start_d = [] \<or> start_d \<le> d) \<and> (end_d = [] \<or> d \<le> end_d))"

text \<open>Modelled from the spec: the range-filtered view of the series (SeriesStore, QueryService),
  which is missing from the sources.\<close>

definition price_range :: "series \<Rightarrow> string \<Rightarrow> string \<Rightarrow> series" where
  "price_range s start_d end_d = filter (\<lambda>p. in_range start_d end_d (fst p)) s"

text \<open>Modelled from the spec: \<open>GET prices(start_date, end_date) -> {dates, prices}\<close> (section 6),
  whose handler is missing from the sources.\<close>

definition get_prices :: "series \<Rightarrow> string \<Rightarrow> string \<Rightarrow> PricesResponse" where
  "get_prices s start_d end_d =
     (let sel = price_range s start_d end_d
      in \<lparr>PricesResponse.dates = map fst sel, PricesResponse.prices = map snd sel\<rparr>)"

subsection \<open>StatisticsEngine\<close>

text \<open>Modelled from the spec: the arithmetic mean of StatisticsEngine and of
  EventImpactAnalyzer (sections 4.1 and 4.3), which are missing from the sources.\<close>

definition mean_of :: "real list \<Rightarrow> real" where
  "mean_of xs = sum_list xs / real (length xs)"

text \<open>Modelled from the spec: the median of StatisticsEngine (section 4.1), missing from the
  sources: the middle element of the sorted prices, or the mean of the two middle ones.\<close>

definition median_of :: "real list \<Rightarrow> real" where
  "median_of xs =
     (let s = sort xs; n = length xs
      in if odd n then s ! (n div 2) else (s ! (n div 2 - 1) + s ! (n div 2)) / 2)"

text \<open>Modelled from the spec: the sample standard deviation of StatisticsEngine
  (section 4.1), missing from the sources; the spec prescribes the sample deviation for
  the returns, and the same one is taken for \<open>std_dev\<close>.\<close>

definition sample_std :: "real list \<Rightarrow> real" where
  "sample_std xs =
     sqrt (sum_list (map (\<lambda>x. (x - mean_of xs)\<^sup>2) xs) / real (length xs - 1))"

text \<open>Modelled from the spec: the daily log returns \<open>r_i = ln(p_i / p_{i-1})\<close> of consecutive
  points (section 4.1), missing from the sources.\<close>

fun log_returns :: "real list \<Rightarrow> real list" where
  "log_returns (p # q # ps) = ln (q / p) # log_returns (q # ps)"
| "log_returns ps = []"

text \<open>Modelled from the spec: the annualized volatility, the sample standard deviation of the
  log returns times \<open>sqrt(252)\<close> (section 4.1), missing from the sources. For a series of two
  points there is one return and the sample deviation divides by zero; the spec names no
  failure there, and the value is then \<open>0\<close> by HOL's division. No theorem below depends on
  that value.\<close>

definition annualized_volatility :: "real list \<Rightarrow> real" where
  "annualized_volatility ps = sample_std (log_returns ps) * sqrt 252"

text \<open>Modelled from the spec: \<open>summarize(series_slice)\<close> (section 4.1), missing from the sources.
  It fails with EmptyRangeError on an empty slice and with InsufficientDataError on a slice
  of exactly one point, where the volatility is undefined.\<close>

definition summarize :: "real list \<Rightarrow> stats_error + Statistics" where
  "summarize ps =
     (if ps = [] then Inl EmptyRangeError
      else if length ps < 2 then Inl InsufficientDataError
      else Inr \<lparr>mean = mean_of ps,
                median = median_of ps,
                std_dev = sample_std ps,
                volatility = annualized_volatility ps,
                min_price = Min (set ps),
                max_price = Max (set ps),
                count = length ps\<rparr>)"

text \<open>Modelled from the spec: \<open>GET statistics(start_date, end_date)\<close> (section 6), the summary
  of the prices of the range; its handler is missing from the sources.\<close>

definition get_statistics :: "series \<Rightarrow> string \<Rightarrow> string \<Rightarrow> stats_error + Statistics" where
  "get_statistics s start_d end_d = summarize (map snd (price_range s start_d end_d))"

subsection \<open>EventImpactAnalyzer\<close>

text \<open>Modelled from the spec: the sufficiency gate of EventImpactAnalyzer (section 4.3),
  missing from the sources: at least \<open>min_points\<close> points on each side of the event.\<close>

definition sufficient :: "nat \<Rightarrow> real list \<Rightarrow> real list \<Rightarrow> bool" where
  "sufficient min_points before after =
     (min_points \<le> length before \<and> min_points \<le> length after)"

text \<open>Modelled from the spec: the result of EventImpactAnalyzer for the prices of the two
  clipped windows (section 4.3), missing from the sources: the explicit insufficient-data
  result (\<open>null\<close> in the response) when the gate fails, the means of the two windows and
  their absolute and relative difference otherwise. The extraction of the windows from the
  series is not modelled; the windows are arguments.\<close>

definition analyze_impact ::
  "nat \<Rightarrow> string \<Rightarrow> nat \<Rightarrow> real list \<Rightarrow> real list \<Rightarrow> ImpactResult option" where
  "analyze_impact min_points ev_date window before after =
     (if sufficient min_points before after
      then Some \<lparr>ImpactResult.event_date = ev_date,
                 window_days = window,
                 price_before = mean_of before,
                 price_after = mean_of after,
                 absolute_change = mean_of after - mean_of before,
                 percentage_change = (mean_of after - mean_of before) / mean_of before * 100\<rparr>
      else None)"

text \<open>Modelled from the spec: the two windows of EventImpactAnalyzer (section 4.3), missing
  from the sources: the points of the \<open>window\<close> days before the event date, and those from
  the event date to \<open>window\<close> days after it, clipped to the series. The calendar is a
  parameter: \<open>day\<close> gives the day number of an ISO date.\<close>

definition impact_windows :: "(string \<Rightarrow> int) \<Rightarrow> series \<Rightarrow> string \<Rightarrow> nat \<Rightarrow> series \<times> series" where
  "impact_windows day s ev_date window =
     (filter (\<lambda>p. day ev_date - int window \<le> day (fst p) \<and> day (fst p) < day ev_date) s,
      filter (\<lambda>p. day ev_date \<le> day (fst p) \<and> day (fst p) \<le> day ev_date + int window) s)"

text \<open>Modelled from the spec: \<open>GET event-impact(event_date, window_days) -> {impact, prices,
  dates, event_date}\<close> (sections 4.3 and 6), whose handler is missing from the sources. An
  event date outside the range of the series is a DateOutOfRangeError; otherwise the
  response carries the analyzer's result and repeats the event date it was asked for.
  The spec gives \<open>prices\<close> and \<open>dates\<close> as arrays only; they are taken to be the points of
  the two windows, which is what the client charts around the event date.\<close>

definition event_impact ::
  "(string \<Rightarrow> int) \<Rightarrow> nat \<Rightarrow> series \<Rightarrow> string \<Rightarrow> nat \<Rightarrow> stats_error + ImpactResponse" where
  "event_impact day min_points s ev_date window =
     (if s = [] \<or> day ev_date < day (fst (hd s)) \<or> day (fst (last s)) < day ev_date
      then Inl DateOutOfRangeError
      else
        (let (before, after) = impact_windows day s ev_date window
         in Inr \<lparr>impact = analyze_impact min_points ev_date window (map snd before) (map snd after),
                 ImpactResponse.prices = map snd (before @ after),
                 ImpactResponse.dates = map fst (before @ after),
                 ImpactResponse.event_date = ev_date\<rparr>))"

text \<open>Modelled from the spec: the arguments that the handler of \<open>GET event-impact\<close> reads from
  the query (section 6; the handler is missing from the sources): \<open>event_date\<close> is
  required, \<open>window_days\<close> is optional and 30 when it is not given.\<close>

definition event_impact_args :: "(string \<times> param) list \<Rightarrow> (string \<times> nat) option" where
  "event_impact_args q =
     (case map_of q ''event_date'' of
        Some (Str d) \<Rightarrow>
          Some (d, (case map_of q ''window_days'' of Some (Num n) \<Rightarrow> nat n | _ \<Rightarrow> 30))
      | _ \<Rightarrow> None)"

section \<open>Example data\<close>

text \<open>Two distinct events of one day, as the events response may hold them.\<close>

definition opec_talks :: Event where
  "opec_talks =
     \<lparr>Event.date = ''2020-03-06'', event = Some ''OPEC+ talks collapse'',
      name = ''OPEC+ talks collapse'', Event.category = ''OPEC'',
      description = ''No agreement on production cuts'', impact_level = ''High''\<rparr>"

definition price_war :: Event where
  "price_war =
     \<lparr>Event.date = ''2020-03-06'', event = Some ''Price war begins'',
      name = ''Price war begins'', Event.category = ''Economic'',
      description = ''Saudi Arabia cuts its selling prices'', impact_level = ''High''\<rparr>"

text \<open>An event object with exactly the fields of the spec's Event: it has a \<open>name\<close> and no
  property \<open>event\<close>.\<close>

definition spec_event :: Event where
  "spec_event =
     \<lparr>Event.date = ''2020-03-06'', event = None,
      name = ''OPEC+ talks collapse'', Event.category = ''OPEC'',
      description = ''No agreement on production cuts'', impact_level = ''High''\<rparr>"

text \<open>An event of another day, the first day of the series below.\<close>

definition quota_meeting :: Event where
  "quota_meeting =
     \<lparr>Event.date = ''2020-03-04'', event = Some ''Quota meeting opens'',
      name = ''Quota meeting opens'', Event.category = ''OPEC'',
      description = ''Ministers meet in Vienna'', impact_level = ''Medium''\<rparr>"

text \<open>Four trading days of March 2020, and the day of the month as their calendar.\<close>

definition march_days :: series where
  "march_days =
     [(''2020-03-04'', 49), (''2020-03-05'', 51), (''2020-03-06'', 59), (''2020-03-09'', 61)]"

definition day_of_march :: "string \<Rightarrow> int" where
  "day_of_march d =
     (case map_of [(''2020-03-04'', 4), (''2020-03-05'', 5), (''2020-03-06'', 6), (''2020-03-09'', 9)] d of
        Some n \<Rightarrow> n
      | None \<Rightarrow> 0)"

text \<open>The response for an event on the first day of the series (no point before it), and
  the response for an event with two points on each side.\<close>

definition first_day_response :: ImpactResponse where
  "first_day_response =
     \<lparr>impact = None, ImpactResponse.prices = [49, 51, 59, 61],
      ImpactResponse.dates = [''2020-03-04'', ''2020-03-05'', ''2020-03-06'', ''2020-03-09''],
      ImpactResponse.event_date = ''2020-03-04''\<rparr>"

definition mid_series_response :: ImpactResponse where
  "mid_series_response =
     \<lparr>impact = Some \<lparr>ImpactResult.event_date = ''2020-03-06'', window_days = 30,
                      price_before = 50, price_after = 60,
                      absolute_change = 10, percentage_change = 20\<rparr>,
      ImpactResponse.prices = [49, 51, 59, 61],
      ImpactResponse.dates = [''2020-03-04'', ''2020-03-05'', ''2020-03-06'', ''2020-03-09''],
      ImpactResponse.event_date = ''2020-03-06''\<rparr>"

text \<open>The three-point series of the spec's concrete scenario.\<close>

definition three_points :: series where
  "three_points = [(''2020-01-01'', 50), (''2020-01-02'', 55), (''2020-01-03'', 45)]"

section \<open>Properties of the client\<close>

subsection \<open>Shared facts\<close>

lemma js_or_nonempty: "a \<noteq> [] \<Longrightarrow> js_or a b = a"
  by (simp add: js_or_def)

lemma js_or_empty: "js_or [] b = b"
  by (simp add: js_or_def)

lemma selectedEvent_step:
  "selectedEvent (step st a) = (case a of EventClicked ev \<Rightarrow> Some ev | _ \<Rightarrow> selectedEvent st)"
  by (cases a)
    (simp_all add: fetchDateRange_def fetchCategories_def fetchData_start_def fetchData_def
       handleEventClick_start_def handleEventClick_settle_def split: sum.splits prod.splits)

lemma selection_stays:
  "selectedEvent st \<noteq> None \<Longrightarrow> selectedEvent (run st acts) \<noteq> None"
  unfolding run_def
proof (induction acts arbitrary: st)
  case Nil
  then show ?case by simp
next
  case (Cons a acts)
  have "selectedEvent (step st a) \<noteq> None"
    using Cons.prems by (simp add: selectedEvent_step split: action.splits)
  then show ?case
    using Cons.IH by simp
qed

lemma selected_after_click:
  "selectedEvent (handleEventClick_start clicked st) = Some clicked"
  by (simp add: handleEventClick_start_def)

lemma selected_after_settle:
  "selectedEvent (handleEventClick_settle response st) = selectedEvent st"
  by (simp add: handleEventClick_settle_def split: sum.splits)

lemma events_after_click:
  "AppState.events (handleEventClick_start clicked st) = AppState.events st"
  by (simp add: handleEventClick_start_def)

lemma events_after_settle:
  "AppState.events (handleEventClick_settle response st) = AppState.events st"
  by (simp add: handleEventClick_settle_def split: sum.splits)

lemma impact_after_settle:
  "eventImpact (handleEventClick_settle (Inr r) st) = Some r"
  by (simp add: handleEventClick_settle_def)

lemma impact_kept_on_failure:
  "eventImpact (handleEventClick_settle (Inl err) st) = eventImpact st"
  by (simp add: handleEventClick_settle_def)

lemma impact_section_on_arrival:
  "selectedEvent st = Some sel \<Longrightarrow>
     impact_section (handleEventClick_settle (Inr r) st)
       = Some \<lparr>heading = event sel, body = impact_body r\<rparr>"
  by (simp add: impact_section_def selected_after_settle impact_after_settle)

lemma selected_when_response_arrives:
  "\<exists>sel. selectedEvent (run (handleEventClick_start ev st) between) = Some sel"
  using selection_stays [of "handleEventClick_start ev st" between]
  by (simp add: selected_after_click)

text \<open>With two requests in flight the responses may arrive in either order. Here the
  later click is on an event whose response has no impact; its response arrives first,
  and the response of the earlier click, arriving last, leaves its figures under the
  heading of the event selected last.\<close>

lemma late_response_under_new_heading:
  "impact_section
     (run initial_state
        [EventClicked opec_talks, EventClicked quota_meeting,
         EventImpactSettled (Inr first_day_response),
         EventImpactSettled (Inr mid_series_response)])
     = Some \<lparr>heading = event quota_meeting, body = impact_body mid_series_response\<rparr> \<and>
   impact_body mid_series_response \<noteq> InsufficientData"
  by (simp add: run_def impact_section_on_arrival selected_after_settle selected_after_click
        impact_body_def mid_series_response_def)

lemma event_impact_echoes_date:
  "event_impact day min_points s d w = Inr r \<Longrightarrow> ImpactResponse.event_date r = d"
  by (auto simp add: event_impact_def Let_def split: if_splits prod.splits)

lemma event_impact_result:
  "event_impact day min_points s d w = Inr r \<Longrightarrow> impact r = Some res \<Longrightarrow>
     ImpactResult.event_date res = d \<and> window_days res = w"
  by (auto simp add: event_impact_def analyze_impact_def Let_def split: if_splits prod.splits)

lemma event_impact_args_of_click:
  "event_impact_args (axios_query (event_impact_params ev)) = Some (Event.date ev, 30)"
  by (simp add: event_impact_args_def axios_query_def event_impact_params_def)

lemma march_response:
  "event_impact day_of_march 2 march_days ''2020-03-06'' 30 = Inr mid_series_response"
  by (simp add: event_impact_def impact_windows_def march_days_def day_of_march_def
        analyze_impact_def sufficient_def mean_of_def mid_series_response_def)

lemma march_first_day_response:
  "event_impact day_of_march 2 march_days ''2020-03-04'' 30 = Inr first_day_response"
  by (simp add: event_impact_def impact_windows_def march_days_def day_of_march_def
        analyze_impact_def sufficient_def first_day_response_def)

lemma march_out_of_range:
  "event_impact day_of_march 2 march_days ''2020-03-10'' 30 = Inl DateOutOfRangeError"
  by (simp add: event_impact_def march_days_def day_of_march_def)

lemma prices_after_fetchData:
  "AppState.prices (fetchData (Inr (pricesRes, eventsRes, statsRes)) st) = priceData pricesRes"
  by (simp add: fetchData_def)

lemma impact_body_insufficient_iff:
  "impact_body r = InsufficientData \<longleftrightarrow> impact r = None"
  by (simp add: impact_body_def split: option.splits)

text \<open>When the two arrays of a prices response have one length, the client's price series
  is their zip.\<close>

lemma priceData_pairs:
  assumes "length (PricesResponse.dates r) = length (PricesResponse.prices r)"
  shows "priceData r
           = map (\<lambda>(d, p). \<lparr>PricePoint.date = d, price = Some p\<rparr>)
               (zip (PricesResponse.dates r) (PricesResponse.prices r))"
proof (rule nth_equalityI)
  show "length (priceData r)
          = length (map (\<lambda>(d, p). \<lparr>PricePoint.date = d, price = Some p\<rparr>)
              (zip (PricesResponse.dates r) (PricesResponse.prices r)))"
    using assms by (simp add: priceData_def)
next
  fix i assume "i < length (priceData r)"
  then have i: "i < length (PricesResponse.dates r)"
    by (simp add: priceData_def)
  with assms show "priceData r ! i
          = map (\<lambda>(d, p). \<lparr>PricePoint.date = d, price = Some p\<rparr>)
              (zip (PricesResponse.dates r) (PricesResponse.prices r)) ! i"
    by (simp add: priceData_def nth_enumerate_eq js_index_def)
qed

text \<open>A price the response does not have is \<open>undefined\<close> in the client's series.\<close>

lemma priceData_short_prices:
  assumes "i < length (PricesResponse.dates r)" and "length (PricesResponse.prices r) \<le> i"
  shows "price (priceData r ! i) = None"
  using assms by (simp add: priceData_def nth_enumerate_eq js_index_def)

lemma price_range_sorted:
  "valid_series s \<Longrightarrow> valid_series (price_range s a b)"
  by (simp add: valid_series_def price_range_def sorted_wrt_map sorted_wrt_filter)

text \<open>Empty date bounds select the whole series.\<close>

lemma price_range_unbounded: "price_range s [] [] = s"
  by (simp add: price_range_def in_range_def)

subsection \<open>The impact section\<close>

text \<open>
  Claim C1. When the sufficiency gate of the analyzer fails, the \<open>impact\<close> field of the
  response is \<open>null\<close>. When that response arrives, after the click that asked for it and
  whatever ran in between, the client renders the impact section with the "insufficient
  data" body: no figure is shown. When the gate passes, the section shows the four
  figures of the result: the means of the two windows, their difference and the relative
  difference in percent. The heading of the section is the title of the event selected
  when the response arrives.
\<close>

theorem insufficient_data_is_rendered_as_such:
  fixes ev :: Event and st :: AppState and between :: "action list" and r :: ImpactResponse
  assumes "impact r = analyze_impact min_points d w before after"
  defines "st' \<equiv> handleEventClick_settle (Inr r) (run (handleEventClick_start ev st) between)"
  shows "(\<not> sufficient min_points before after \<longrightarrow>
            impact r = None \<and>
            (\<exists>sel. selectedEvent st' = Some sel \<and>
               impact_section st' = Some \<lparr>heading = event sel, body = InsufficientData\<rparr>)) \<and>
         (sufficient min_points before after \<longrightarrow>
            (\<exists>sel f. selectedEvent st' = Some sel \<and>
                 impact_section st' = Some \<lparr>heading = event sel, body = Figures f\<rparr> \<and>
                 shown_price_before f = mean_of before \<and>
                 shown_price_after f = mean_of after \<and>
                 shown_absolute_change f = mean_of after - mean_of before \<and>
                 shown_percentage_change f
                   = (mean_of after - mean_of before) / mean_of before * 100))"
proof -
  obtain sel where sel: "selectedEvent (run (handleEventClick_start ev st) between) = Some sel"
    using selected_when_response_arrives by blast
  then have s': "selectedEvent st' = Some sel"
    by (simp add: st'_def selected_after_settle)
  have sec: "impact_section st' = Some \<lparr>heading = event sel, body = impact_body r\<rparr>"
    unfolding st'_def by (rule impact_section_on_arrival [OF sel])
  show ?thesis
    using assms(1) s' sec
    by (simp add: impact_body_def analyze_impact_def)
qed

theorem insufficient_data_is_rendered_as_such_witness:
  "impact_section
     (run initial_state [EventClicked quota_meeting, EventImpactSettled (Inr first_day_response)])
     = Some \<lparr>heading = Some ''Quota meeting opens'', body = InsufficientData\<rparr> \<and>
   (\<exists>f. impact_section
           (run initial_state
              [EventClicked opec_talks, EventClicked price_war,
               EventImpactSettled (Inr mid_series_response)])
           = Some \<lparr>heading = Some ''Price war begins'', body = Figures f\<rparr> \<and>
        shown_price_before f = 50 \<and> shown_price_after f = 60 \<and>
        shown_absolute_change f = 10 \<and> shown_percentage_change f = 20)"
proof -
  let ?a = "handleEventClick_settle (Inr first_day_response)
              (run (handleEventClick_start quota_meeting initial_state) [])"
  let ?b = "handleEventClick_settle (Inr mid_series_response)
              (run (handleEventClick_start opec_talks initial_state) [EventClicked price_war])"
  have h1: "impact first_day_response = analyze_impact 2 ''2020-03-04'' 30 [] [49, 51, 59, 61]"
    by (simp add: first_day_response_def analyze_impact_def sufficient_def)
  have n1: "\<not> sufficient 2 [] [49, 51, 59, 61 :: real]"
    by (simp add: sufficient_def)
  have h2: "impact mid_series_response = analyze_impact 2 ''2020-03-06'' 30 [49, 51] [59, 61]"
    by (simp add: mid_series_response_def analyze_impact_def sufficient_def mean_of_def)
  have s2: "sufficient 2 [49, 51 :: real] [59, 61]"
    by (simp add: sufficient_def)
  have m: "mean_of [49, 51] = 50" "mean_of [59, 61] = 60"
    by (simp_all add: mean_of_def)
  have sa: "selectedEvent ?a = Some quota_meeting"
    by (simp add: run_def selected_after_settle selected_after_click)
  have sb: "selectedEvent ?b = Some price_war"
    by (simp add: run_def selected_after_settle selected_after_click)
  have ev: "event quota_meeting = Some ''Quota meeting opens''"
    "event price_war = Some ''Price war begins''"
    by (simp_all add: quota_meeting_def price_war_def)
  have ra: "run initial_state [EventClicked quota_meeting, EventImpactSettled (Inr first_day_response)] = ?a"
    and rb: "run initial_state [EventClicked opec_talks, EventClicked price_war,
               EventImpactSettled (Inr mid_series_response)] = ?b"
    by (simp_all add: run_def)
  from insufficient_data_is_rendered_as_such [OF h1, of quota_meeting initial_state "[]"] n1 sa
  have a: "impact_section ?a = Some \<lparr>heading = Some ''Quota meeting opens'', body = InsufficientData\<rparr>"
    by (auto simp add: ev)
  from insufficient_data_is_rendered_as_such
         [OF h2, of opec_talks initial_state "[EventClicked price_war]"] s2 sb
  have b: "\<exists>f. impact_section ?b = Some \<lparr>heading = Some ''Price war begins'', body = Figures f\<rparr> \<and>
        shown_price_before f = 50 \<and> shown_price_after f = 60 \<and>
        shown_absolute_change f = 10 \<and> shown_percentage_change f = 20"
    by (auto simp add: ev m)
  from a b show ?thesis unfolding ra rb by blast
qed

subsection \<open>The price series\<close>

text \<open>
  Claim C2. For a series with strictly increasing dates, the response of \<open>GET prices\<close> has
  a date array and a price array of one length, in ascending date order; the client's
  price series has one point per index, pairing \<open>dates[i]\<close> with \<open>prices[i]\<close>, and is
  exactly the selected points of the series: none is dropped and none occurs twice.
\<close>

theorem prices_response_pairs_point_by_point:
  fixes s :: series and start_d end_d :: string
  assumes "valid_series s"
  defines "r \<equiv> get_prices s start_d end_d"
  shows "length (PricesResponse.dates r) = length (PricesResponse.prices r) \<and>
         sorted_wrt (<) (PricesResponse.dates r) \<and>
         length (priceData r) = length (PricesResponse.dates r) \<and>
         (\<forall>i < length (PricesResponse.dates r).
            priceData r ! i
              = \<lparr>PricePoint.date = PricesResponse.dates r ! i,
                 price = Some (PricesResponse.prices r ! i)\<rparr>) \<and>
         priceData r
           = map (\<lambda>(d, p). \<lparr>PricePoint.date = d, price = Some p\<rparr>) (price_range s start_d end_d)"
proof -
  have len: "length (PricesResponse.dates r) = length (PricesResponse.prices r)"
    by (simp add: r_def get_prices_def Let_def)
  have srt: "sorted_wrt (<) (PricesResponse.dates r)"
    using price_range_sorted [OF assms(1), of start_d end_d]
    by (simp add: r_def get_prices_def Let_def valid_series_def)
  have zp: "zip (PricesResponse.dates r) (PricesResponse.prices r) = price_range s start_d end_d"
    by (simp add: r_def get_prices_def Let_def zip_map_fst_snd)
  note pd = priceData_pairs [OF len]
  have l2: "length (priceData r) = length (PricesResponse.dates r)"
    by (simp add: priceData_def)
  have nth: "\<forall>i < length (PricesResponse.dates r).
            priceData r ! i
              = \<lparr>PricePoint.date = PricesResponse.dates r ! i,
                 price = Some (PricesResponse.prices r ! i)\<rparr>"
    using len by (simp add: pd)
  from len srt l2 nth pd zp show ?thesis by simp
qed

theorem prices_response_pairs_point_by_point_witness:
  "valid_series three_points \<and>
   priceData (get_prices three_points ''2020-01-02'' [])
     = [\<lparr>PricePoint.date = ''2020-01-02'', price = Some 55\<rparr>,
        \<lparr>PricePoint.date = ''2020-01-03'', price = Some 45\<rparr>]"
proof -
  have v: "valid_series three_points"
    by (simp add: valid_series_def three_points_def)
  have "price_range three_points ''2020-01-02'' [] = [(''2020-01-02'', 55), (''2020-01-03'', 45)]"
    by (simp add: price_range_def three_points_def in_range_def)
  with prices_response_pairs_point_by_point [OF v, of "''2020-01-02''" "[]"] v
  show ?thesis by simp
qed

subsection \<open>Event titles\<close>

text \<open>
  Claim C3, as the claim states it, fails: for an event object that has the fields of the
  spec's Event, with a \<open>name\<close> and no property \<open>event\<close>, the card shows no title and the
  chart marker no label, and neither is the \<open>name\<close>.
\<close>

theorem title_is_name_counterexample:
  "card_title (event_card None spec_event) \<noteq> Some (name spec_event) \<and>
   line_label (event_markers [spec_event] ! 0) \<noteq> Some (name spec_event)"
  by (simp add: event_card_def event_markers_def spec_event_def)

text \<open>
  Claim C3, amended. Every event card shows the \<open>date\<close>, \<open>category\<close>, \<open>description\<close> and
  \<open>impact_level\<close> of its event, and its title is the \<open>event\<close> property of the event
  object; the label of the event's marker in the main chart is that property too, and
  the \<open>events\<close> text of a chart point is the \<open>event\<close> properties of the events of its date,
  joined by a comma and a space. The \<open>name\<close> field is not read.
\<close>

theorem title_is_event_property:
  "card_title (event_card sel ev) = event ev \<and>
   card_date (event_card sel ev) = Event.date ev \<and>
   card_category (event_card sel ev) = Event.category ev \<and>
   card_description (event_card sel ev) = description ev \<and>
   card_impact (event_card sel ev) = impact_level ev \<and>
   map line_label (event_markers evs) = map event evs \<and>
   map line_x (event_markers evs) = map Event.date evs \<and>
   map point_events (chartData ps evs)
     = map (\<lambda>p. let es = filter (\<lambda>e. Event.date e = PricePoint.date p) evs
                 in if es = [] then None else Some (js_join '', '' (map event es))) ps"
  by (simp add: event_card_def event_markers_def chartData_def Let_def comp_def)

theorem title_is_event_property_witness:
  "card_title (event_card None price_war) = Some ''Price war begins'' \<and>
   map line_label (event_markers [opec_talks, price_war])
     = [Some ''OPEC+ talks collapse'', Some ''Price war begins''] \<and>
   map point_events
       (chartData [\<lparr>PricePoint.date = ''2020-03-06'', price = Some 45\<rparr>,
                   \<lparr>PricePoint.date = ''2020-03-09'', price = Some 34\<rparr>]
          [opec_talks, price_war])
     = [Some ''OPEC+ talks collapse, Price war begins'', None]"
  using title_is_event_property
    [of None price_war "[opec_talks, price_war]"
        "[\<lparr>PricePoint.date = ''2020-03-06'', price = Some 45\<rparr>,
          \<lparr>PricePoint.date = ''2020-03-09'', price = Some 34\<rparr>]"]
  by (simp add: opec_talks_def price_war_def)

subsection \<open>Request parameters\<close>

text \<open>
  Claim C4, as the claim states it, fails for the date bounds: with the filters of the
  initial state, where both bounds are empty, each of the three queries sends
  \<open>start_date\<close> and \<open>end_date\<close> with the empty string as value.
\<close>

theorem empty_date_bound_is_sent_counterexample:
  "startDate (filters initial_state) = [] \<and>
   endDate (filters initial_state) = [] \<and>
   axios_query (prices_params (filters initial_state))
     = [(''start_date'', Str []), (''end_date'', Str [])] \<and>
   axios_query (events_params (filters initial_state))
     = [(''start_date'', Str []), (''end_date'', Str [])] \<and>
   axios_query (statistics_params (filters initial_state))
     = [(''start_date'', Str []), (''end_date'', Str [])]"
  by (simp add: initial_state_def axios_query_def prices_params_def events_params_def
        statistics_params_def or_undefined_def)

text \<open>
  Claim C4, amended. An empty \<open>category\<close> or \<open>impact_level\<close> filter is not sent with the
  events query, and a non-empty one is sent with its value. The date bounds are always
  sent, in all three queries, with the current value of the filter.
\<close>

theorem empty_select_filters_are_not_sent:
  "(Filters.category f = [] \<longrightarrow> map_of (axios_query (events_params f)) ''category'' = None) \<and>
   (Filters.category f \<noteq> [] \<longrightarrow>
      map_of (axios_query (events_params f)) ''category'' = Some (Str (Filters.category f))) \<and>
   (impactLevel f = [] \<longrightarrow> map_of (axios_query (events_params f)) ''impact_level'' = None) \<and>
   (impactLevel f \<noteq> [] \<longrightarrow>
      map_of (axios_query (events_params f)) ''impact_level'' = Some (Str (impactLevel f))) \<and>
   map_of (axios_query (events_params f)) ''start_date'' = Some (Str (startDate f)) \<and>
   map_of (axios_query (events_params f)) ''end_date'' = Some (Str (endDate f)) \<and>
   axios_query (prices_params f)
     = [(''start_date'', Str (startDate f)), (''end_date'', Str (endDate f))] \<and>
   axios_query (statistics_params f)
     = [(''start_date'', Str (startDate f)), (''end_date'', Str (endDate f))]"
  by (simp add: axios_query_def prices_params_def events_params_def
        statistics_params_def or_undefined_def)

theorem empty_select_filters_are_not_sent_witness:
  "map_of (axios_query (events_params
      \<lparr>startDate = ''2020-01-01'', endDate = ''2020-12-31'',
       Filters.category = [], impactLevel = ''High''\<rparr>)) ''category'' = None \<and>
   map_of (axios_query (events_params
      \<lparr>startDate = ''2020-01-01'', endDate = ''2020-12-31'',
       Filters.category = [], impactLevel = ''High''\<rparr>)) ''impact_level'' = Some (Str ''High'')"
  using empty_select_filters_are_not_sent
    [of "\<lparr>startDate = ''2020-01-01'', endDate = ''2020-12-31'',
          Filters.category = [], impactLevel = ''High''\<rparr>"]
  by simp

text \<open>
  Claim C5. The request of \<open>handleEventClick\<close> carries \<open>window_days = 30\<close>, the value the
  endpoint takes when none is given, and the \<open>date\<close> of the clicked event as \<open>event_date\<close>;
  both are sent, and the clicked event is the selected one when the request is made.
  The endpoint reads these two values from the query; its response repeats the event
  date it was asked for, and the result in it is for that date and a window of 30 days.
  When the response arrives and has an impact, the reference line of the impact chart
  is drawn at that date, whichever event is selected by then.
\<close>

theorem impact_request_and_marker:
  fixes ev :: Event and st :: AppState and between :: "action list" and r :: ImpactResponse
  assumes "event_impact_args (axios_query (event_impact_params ev)) = Some (d, w)"
    and "event_impact day min_points s d w = Inr r"
  defines "st' \<equiv> handleEventClick_settle (Inr r) (run (handleEventClick_start ev st) between)"
  shows "event_impact_params ev
           = [(''event_date'', Str (Event.date ev)), (''window_days'', Num 30)] \<and>
         axios_query (event_impact_params ev) = event_impact_params ev \<and>
         selectedEvent (handleEventClick_start ev st) = Some ev \<and>
         d = Event.date ev \<and> w = 30 \<and>
         event_impact_args [(''event_date'', Str (Event.date ev))] = Some (Event.date ev, 30) \<and>
         ImpactResponse.event_date r = Event.date ev \<and>
         (\<forall>res. impact r = Some res \<longrightarrow>
            ImpactResult.event_date res = Event.date ev \<and> window_days res = 30) \<and>
         (impact r \<noteq> None \<longrightarrow>
            (\<exists>sel f. selectedEvent st' = Some sel \<and>
               impact_section st' = Some \<lparr>heading = event sel, body = Figures f\<rparr> \<and>
               line_x (event_line f) = Event.date ev))"
proof -
  from assms(1) have dw: "d = Event.date ev" "w = 30"
    by (simp_all add: event_impact_args_of_click)
  have p: "event_impact_params ev
           = [(''event_date'', Str (Event.date ev)), (''window_days'', Num 30)]"
    by (simp add: event_impact_params_def)
  have q: "axios_query (event_impact_params ev) = event_impact_params ev"
    by (simp add: event_impact_params_def axios_query_def)
  have dflt: "event_impact_args [(''event_date'', Str (Event.date ev))] = Some (Event.date ev, 30)"
    by (simp add: event_impact_args_def)
  have e: "ImpactResponse.event_date r = Event.date ev"
    using event_impact_echoes_date [OF assms(2)] dw by simp
  have res: "\<forall>res. impact r = Some res \<longrightarrow>
            ImpactResult.event_date res = Event.date ev \<and> window_days res = 30"
    using event_impact_result [OF assms(2)] dw by simp
  obtain sel where sel: "selectedEvent (run (handleEventClick_start ev st) between) = Some sel"
    using selected_when_response_arrives by blast
  then have s': "selectedEvent st' = Some sel"
    by (simp add: st'_def selected_after_settle)
  have sec: "impact_section st' = Some \<lparr>heading = event sel, body = impact_body r\<rparr>"
    unfolding st'_def by (rule impact_section_on_arrival [OF sel])
  have mark: "impact r \<noteq> None \<longrightarrow>
            (\<exists>sel f. selectedEvent st' = Some sel \<and>
               impact_section st' = Some \<lparr>heading = event sel, body = Figures f\<rparr> \<and>
               line_x (event_line f) = Event.date ev)"
    using s' sec e by (auto simp add: impact_body_def)
  from p q dw dflt e res mark show ?thesis
    by (simp add: selected_after_click)
qed

theorem impact_request_and_marker_witness:
  "event_impact_params opec_talks
     = [(''event_date'', Str ''2020-03-06''), (''window_days'', Num 30)] \<and>
   ImpactResponse.event_date mid_series_response = ''2020-03-06'' \<and>
   (\<exists>f. impact_section
           (run initial_state
              [EventClicked opec_talks, EventClicked quota_meeting,
               EventImpactSettled (Inr mid_series_response)])
           = Some \<lparr>heading = Some ''Quota meeting opens'', body = Figures f\<rparr> \<and>
        line_x (event_line f) = ''2020-03-06'')"
proof -
  let ?b = "handleEventClick_settle (Inr mid_series_response)
              (run (handleEventClick_start opec_talks initial_state) [EventClicked quota_meeting])"
  have a: "event_impact_args (axios_query (event_impact_params opec_talks))
             = Some (''2020-03-06'', 30)"
    by (simp add: event_impact_args_def axios_query_def event_impact_params_def opec_talks_def)
  have i: "impact mid_series_response \<noteq> None"
    by (simp add: mid_series_response_def)
  have d: "Event.date opec_talks = ''2020-03-06''"
    and e: "event quota_meeting = Some ''Quota meeting opens''"
    by (simp_all add: opec_talks_def quota_meeting_def)
  have sb: "selectedEvent ?b = Some quota_meeting"
    by (simp add: run_def selected_after_settle selected_after_click)
  have rb: "run initial_state
              [EventClicked opec_talks, EventClicked quota_meeting,
               EventImpactSettled (Inr mid_series_response)] = ?b"
    by (simp add: run_def)
  from impact_request_and_marker
         [OF a march_response, of initial_state "[EventClicked quota_meeting]"] i sb
  show ?thesis unfolding rb by (auto simp add: d e)
qed

subsection \<open>Selection\<close>

text \<open>
  Claim C9. Selection is keyed on the date alone: after a click on the card of an event,
  and still when its request has settled, whatever the outcome, a displayed card is
  marked selected exactly when its event has the date of the clicked event. So the
  clicked card is marked, of two distinct events of one date a click on either marks
  both cards, and no card of another date is marked.
\<close>

theorem click_marks_exactly_the_cards_of_the_date:
  fixes st :: AppState and response :: "axios_error + ImpactResponse"
  assumes "i < length (AppState.events st)" and "j < length (AppState.events st)"
  defines "clicked \<equiv> AppState.events st ! j"
  shows "selected (events_list (handleEventClick_start clicked st) ! i)
           = (Event.date (AppState.events st ! i) = Event.date clicked) \<and>
         selected (events_list (handleEventClick_settle response (handleEventClick_start clicked st)) ! i)
           = (Event.date (AppState.events st ! i) = Event.date clicked) \<and>
         selected (events_list (handleEventClick_start clicked st) ! j)"
  using assms(1,2)
  by (auto simp add: clicked_def events_list_def selected_after_click selected_after_settle
        events_after_click events_after_settle event_card_def is_selected_def)

theorem click_marks_exactly_the_cards_of_the_date_witness:
  "opec_talks \<noteq> price_war \<and>
   map selected (events_list (handleEventClick_start price_war
       (initial_state\<lparr>AppState.events := [opec_talks, price_war, quota_meeting]\<rparr>)))
     = [True, True, False]"
proof -
  let ?st = "initial_state\<lparr>AppState.events := [opec_talks, price_war, quota_meeting]\<rparr>"
  have l: "length (AppState.events ?st) = 3" by simp
  have i0: "0 < length (AppState.events ?st)" and i1: "1 < length (AppState.events ?st)"
    and i2: "2 < length (AppState.events ?st)"
    by simp_all
  have c: "AppState.events ?st ! 1 = price_war" by simp
  have d: "Event.date opec_talks = Event.date price_war"
    "Event.date quota_meeting \<noteq> Event.date price_war"
    by (simp_all add: opec_talks_def price_war_def quota_meeting_def)
  have ne: "opec_talks \<noteq> price_war"
    by (simp add: opec_talks_def price_war_def)
  have len: "length (events_list (handleEventClick_start price_war ?st)) = 3"
    by (simp add: events_list_def events_after_click)
  from click_marks_exactly_the_cards_of_the_date [OF i0 i1, of "Inl RequestFailed"]
       click_marks_exactly_the_cards_of_the_date [OF i1 i1, of "Inl RequestFailed"]
       click_marks_exactly_the_cards_of_the_date [OF i2 i1, of "Inl RequestFailed"] d
  have s: "selected (events_list (handleEventClick_start price_war ?st) ! 0)"
    "selected (events_list (handleEventClick_start price_war ?st) ! 1)"
    "\<not> selected (events_list (handleEventClick_start price_war ?st) ! 2)"
    by simp_all
  have "map selected (events_list (handleEventClick_start price_war ?st)) = [True, True, False]"
  proof (rule nth_equalityI)
    show "length (map selected (events_list (handleEventClick_start price_war ?st)))
            = length [True, True, False]"
      using len by simp
  next
    fix k assume "k < length (map selected (events_list (handleEventClick_start price_war ?st)))"
    then have "k = 0 \<or> k = 1 \<or> k = 2" using len by auto
    then show "map selected (events_list (handleEventClick_start price_war ?st)) ! k
                 = [True, True, False] ! k"
      using s len by auto
  qed
  with ne show ?thesis by simp
qed

subsection \<open>The date-range response\<close>

text \<open>
  Claim C10. The updater that \<open>fetchDateRange\<close> applies to the filters when the date-range
  response arrives leaves a non-empty \<open>startDate\<close> (\<open>endDate\<close>) as it is and sets an empty
  one to the \<open>start_date\<close> (\<open>end_date\<close>) of the response; \<open>category\<close> and \<open>impactLevel\<close> keep
  their values. The filters of the state after the handler are the updated ones, and a
  failed request leaves the filters as they were.
\<close>

theorem date_range_fills_only_empty_bounds:
  fixes prev :: Filters and data :: DateRangeResponse
  defines "new \<equiv> fill_date_bounds data prev"
  shows "(startDate prev \<noteq> [] \<longrightarrow> startDate new = startDate prev) \<and>
         (startDate prev = [] \<longrightarrow> startDate new = start_date data) \<and>
         (endDate prev \<noteq> [] \<longrightarrow> endDate new = endDate prev) \<and>
         (endDate prev = [] \<longrightarrow> endDate new = end_date data) \<and>
         Filters.category new = Filters.category prev \<and>
         impactLevel new = impactLevel prev \<and>
         filters (fetchDateRange (Inr data) st) = fill_date_bounds data (filters st) \<and>
         filters (fetchDateRange (Inl err) st) = filters st"
  by (simp add: new_def fill_date_bounds_def fetchDateRange_def js_or_def)

theorem date_range_fills_only_empty_bounds_witness:
  "startDate (fill_date_bounds \<lparr>start_date = ''1987-05-20'', end_date = ''2022-09-30''\<rparr>
       \<lparr>startDate = ''2020-01-01'', endDate = [], Filters.category = ''Conflict'', impactLevel = []\<rparr>)
     = ''2020-01-01'' \<and>
   endDate (fill_date_bounds \<lparr>start_date = ''1987-05-20'', end_date = ''2022-09-30''\<rparr>
       \<lparr>startDate = ''2020-01-01'', endDate = [], Filters.category = ''Conflict'', impactLevel = []\<rparr>)
     = ''2022-09-30'' \<and>
   Filters.category (fill_date_bounds \<lparr>start_date = ''1987-05-20'', end_date = ''2022-09-30''\<rparr>
       \<lparr>startDate = ''2020-01-01'', endDate = [], Filters.category = ''Conflict'', impactLevel = []\<rparr>)
     = ''Conflict''"
  using date_range_fills_only_empty_bounds
    [of "\<lparr>startDate = ''2020-01-01'', endDate = [], Filters.category = ''Conflict'', impactLevel = []\<rparr>"
        "\<lparr>start_date = ''1987-05-20'', end_date = ''2022-09-30''\<rparr>"]
  by simp

section \<open>Properties of the analytical core\<close>

subsection \<open>Bounds of the mean and the median\<close>

lemma sum_list_lower:
  fixes xs :: "real list"
  shows "(\<And>x. x \<in> set xs \<Longrightarrow> a \<le> x) \<Longrightarrow> a * real (length xs) \<le> sum_list xs"
  by (induction xs) (auto simp: algebra_simps intro: add_mono)

lemma sum_list_upper:
  fixes xs :: "real list"
  shows "(\<And>x. x \<in> set xs \<Longrightarrow> x \<le> b) \<Longrightarrow> sum_list xs \<le> b * real (length xs)"
  by (induction xs) (auto simp: algebra_simps intro: add_mono)

lemma mean_bounds:
  assumes "xs \<noteq> []"
  shows "Min (set xs) \<le> mean_of xs" and "mean_of xs \<le> Max (set xs)"
proof -
  have n: "0 < real (length xs)" using assms by simp
  have "Min (set xs) * real (length xs) \<le> sum_list xs"
    by (rule sum_list_lower) simp
  with n show "Min (set xs) \<le> mean_of xs"
    by (simp add: mean_of_def pos_le_divide_eq)
  have "sum_list xs \<le> Max (set xs) * real (length xs)"
    by (rule sum_list_upper) simp
  with n show "mean_of xs \<le> Max (set xs)"
    by (simp add: mean_of_def pos_divide_le_eq)
qed

lemma sorted_nth_bounds:
  fixes xs :: "real list"
  assumes "k < length xs"
  shows "Min (set xs) \<le> sort xs ! k" and "sort xs ! k \<le> Max (set xs)"
proof -
  have "sort xs ! k \<in> set (sort xs)"
    using assms by (intro nth_mem) simp
  then have m: "sort xs ! k \<in> set xs" by simp
  then show "Min (set xs) \<le> sort xs ! k" by simp
  from m show "sort xs ! k \<le> Max (set xs)" by simp
qed

lemma median_bounds:
  assumes "xs \<noteq> []"
  shows "Min (set xs) \<le> median_of xs" and "median_of xs \<le> Max (set xs)"
proof -
  have n: "0 < length xs" using assms by simp
  then have k: "length xs div 2 < length xs" and k1: "length xs div 2 - 1 < length xs"
    by arith+
  note a = sorted_nth_bounds [OF k] and b = sorted_nth_bounds [OF k1]
  from a b show "Min (set xs) \<le> median_of xs"
    by (simp add: median_of_def Let_def)
  from a b show "median_of xs \<le> Max (set xs)"
    by (simp add: median_of_def Let_def)
qed

lemma summarize_two_points:
  "2 \<le> length ps \<Longrightarrow>
     summarize ps = Inr \<lparr>mean = mean_of ps, median = median_of ps, std_dev = sample_std ps,
                volatility = annualized_volatility ps, min_price = Min (set ps),
                max_price = Max (set ps), count = length ps\<rparr>"
  by (auto simp add: summarize_def)

lemma summarize_empty: "summarize [] = Inl EmptyRangeError"
  by (simp add: summarize_def)

text \<open>
  Claim C6, as the claim states it, fails at a series of one point: the series is not
  empty, and \<open>summarize\<close> fails with InsufficientDataError, so that there is no summary of
  which the bounds could hold.
\<close>

theorem summarize_single_point_counterexample:
  "[50 :: real] \<noteq> [] \<and> summarize [50] = Inl InsufficientDataError \<and>
   \<not> (\<exists>s. summarize [50] = Inr s)"
  by (simp add: summarize_def)

text \<open>
  Claim C6, amended. For the series of 50, 55 and 45 on the first three days of 2020,
  the statistics over the full range are mean 50, median 50, minimum 45, maximum 55 and
  count 3. For every series of at least two points \<open>summarize\<close> returns a summary, in
  which the minimum is at most the median and the mean, both are at most the maximum,
  and the count is the length of the input.
\<close>

theorem summarize_orders_its_figures:
  "(\<exists>s. get_statistics three_points ''2020-01-01'' ''2020-01-03'' = Inr s \<and>
        mean s = 50 \<and> median s = 50 \<and> min_price s = 45 \<and> max_price s = 55 \<and> count s = 3) \<and>
   (2 \<le> length ps \<longrightarrow>
      (\<exists>s. summarize ps = Inr s \<and>
           min_price s \<le> median s \<and> median s \<le> max_price s \<and>
           min_price s \<le> mean s \<and> mean s \<le> max_price s \<and>
           count s = length ps))"
proof -
  have r: "price_range three_points ''2020-01-01'' ''2020-01-03'' = three_points"
    by (simp add: price_range_def three_points_def in_range_def)
  have srt: "sort [50, 55, 45 :: real] = [45, 50, 55]"
    by simp
  have "summarize [50, 55, 45]
          = Inr \<lparr>mean = 50, median = 50, std_dev = sample_std [50, 55, 45],
                 volatility = annualized_volatility [50, 55, 45], min_price = 45,
                 max_price = 55, count = 3\<rparr>"
    by (simp add: summarize_def mean_of_def median_of_def Let_def srt)
  then have a: "\<exists>s. get_statistics three_points ''2020-01-01'' ''2020-01-03'' = Inr s \<and>
        mean s = 50 \<and> median s = 50 \<and> min_price s = 45 \<and> max_price s = 55 \<and> count s = 3"
    by (simp add: get_statistics_def r) (simp add: three_points_def)
  have b: "\<exists>s. summarize ps = Inr s \<and>
           min_price s \<le> median s \<and> median s \<le> max_price s \<and>
           min_price s \<le> mean s \<and> mean s \<le> max_price s \<and>
           count s = length ps" if "2 \<le> length ps"
  proof -
    from that have ne: "ps \<noteq> []" by auto
    show ?thesis
      using mean_bounds [OF ne] median_bounds [OF ne]
      by (simp add: summarize_two_points [OF that])
  qed
  from a b show ?thesis by blast
qed

theorem summarize_orders_its_figures_witness:
  "\<exists>s. summarize [62, 58, 64, 60] = Inr s \<and>
       min_price s \<le> median s \<and> median s \<le> max_price s \<and>
       min_price s \<le> mean s \<and> mean s \<le> max_price s \<and>
       count s = 4"
proof -
  have n: "2 \<le> length [62, 58, 64, 60 :: real]"
    and l: "length [62, 58, 64, 60 :: real] = 4" by simp_all
  from summarize_orders_its_figures [of "[62, 58, 64, 60]"] n
  show ?thesis unfolding l by blast
qed

subsection \<open>Volatility\<close>

lemma log_returns_scale:
  "k \<noteq> 0 \<Longrightarrow> log_returns (map ((*) k) ps) = log_returns ps"
  by (induction ps rule: log_returns.induct) simp_all

text \<open>
  Claim C7. For every series of at least two points and every real \<open>k > 0\<close>, \<open>summarize\<close>
  returns a summary for the series and for the series with every price multiplied by
  \<open>k\<close>, and the two summaries have the same annualized volatility.
\<close>

theorem volatility_scale_invariant:
  assumes "0 < k" and "2 \<le> length ps"
  shows "\<exists>s s'. summarize ps = Inr s \<and> summarize (map ((*) k) ps) = Inr s' \<and>
           volatility s' = volatility s"
proof -
  from assms(1) have "k \<noteq> 0" by simp
  then have "annualized_volatility (map ((*) k) ps) = annualized_volatility ps"
    by (simp add: annualized_volatility_def log_returns_scale)
  moreover from assms(2) have "2 \<le> length (map ((*) k) ps)" by simp
  ultimately show ?thesis
    by (simp add: summarize_two_points [OF assms(2)] summarize_two_points)
qed

theorem volatility_scale_invariant_witness:
  "\<exists>s s'. summarize [50, 55, 45] = Inr s \<and> summarize [100, 110, 90] = Inr s' \<and>
           volatility s' = volatility s"
proof -
  have k: "(0::real) < 2" and n: "2 \<le> length [50, 55, 45 :: real]" by simp_all
  from volatility_scale_invariant [OF k n] show ?thesis by simp
qed

end
